theory Spec2Isabelle
  imports Complex_Main "HOL-Library.Finite_Map"
begin

section \<open>Numbers and vectors\<close>

text \<open>
  The editor's components (\<^verbatim>\<open>src/src/components.ts\<close>) compute with JavaScript numbers.
  They are modelled as real numbers: rounding error and the infinities are not modelled, and
  the one place where the source reckons with \<^verbatim>\<open>NaN\<close> (the distance returned by
  \<^verbatim>\<open>Plane.intersectRay\<close>) is modelled by an optional distance, \<open>None\<close> standing for
  \<^verbatim>\<open>NaN\<close>.  A \<^verbatim>\<open>vec3\<close> is a triple; the functions of the vector library write their
  result into their first argument and return it, the model returns the result.
\<close>

type_synonym vec3 = "real \<times> real \<times> real"
type_synonym vec2 = "real \<times> real"

definition vec3_create :: vec3 where
  "vec3_create = (0, 0, 0)"

fun vec3_add :: "vec3 \<Rightarrow> vec3 \<Rightarrow> vec3" where
  "vec3_add (a0, a1, a2) (b0, b1, b2) = (a0 + b0, a1 + b1, a2 + b2)"

fun vec3_subtract :: "vec3 \<Rightarrow> vec3 \<Rightarrow> vec3" where
  "vec3_subtract (a0, a1, a2) (b0, b1, b2) = (a0 - b0, a1 - b1, a2 - b2)"

fun vec3_scale :: "vec3 \<Rightarrow> real \<Rightarrow> vec3" where
  "vec3_scale (a0, a1, a2) s = (a0 * s, a1 * s, a2 * s)"

fun vec3_scaleAndAdd :: "vec3 \<Rightarrow> vec3 \<Rightarrow> real \<Rightarrow> vec3" where
  "vec3_scaleAndAdd (a0, a1, a2) (b0, b1, b2) s = (a0 + b0 * s, a1 + b1 * s, a2 + b2 * s)"

fun vec3_dot :: "vec3 \<Rightarrow> vec3 \<Rightarrow> real" where
  "vec3_dot (a0, a1, a2) (b0, b1, b2) = a0 * b0 + a1 * b1 + a2 * b2"

fun vec3_min :: "vec3 \<Rightarrow> vec3 \<Rightarrow> vec3" where
  "vec3_min (a0, a1, a2) (b0, b1, b2) = (min a0 b0, min a1 b1, min a2 b2)"

fun vec3_max :: "vec3 \<Rightarrow> vec3 \<Rightarrow> vec3" where
  "vec3_max (a0, a1, a2) (b0, b1, b2) = (max a0 b0, max a1 b1, max a2 b2)"

text \<open>\<^verbatim>\<open>Math.round\<close>: the nearest integer, a tie going up.\<close>

definition Math_round :: "real \<Rightarrow> real" where
  "Math_round x = of_int \<lfloor>x + 1 / 2\<rfloor>"

fun vec3_round :: "vec3 \<Rightarrow> vec3" where
  "vec3_round (a0, a1, a2) = (Math_round a0, Math_round a1, Math_round a2)"

text \<open>\<^verbatim>\<open>vec3.normalize\<close> leaves the zero vector as it is.\<close>

fun vec3_normalize :: "vec3 \<Rightarrow> vec3" where
  "vec3_normalize (a0, a1, a2) =
     (let len = a0 * a0 + a1 * a1 + a2 * a2;
          len' = (if len > 0 then 1 / sqrt len else len)
      in (a0 * len', a1 * len', a2 * len'))"

fun vx :: "vec3 \<Rightarrow> real" where "vx (a0, a1, a2) = a0"
fun vy :: "vec3 \<Rightarrow> real" where "vy (a0, a1, a2) = a1"
fun vz :: "vec3 \<Rightarrow> real" where "vz (a0, a1, a2) = a2"

section \<open>The plane intersection\<close>

text \<open>A plane is a normal and a constant: the points \<open>p\<close> with \<open>normal \<bullet> p + constant = 0\<close>.\<close>

type_synonym plane = "vec3 \<times> real"

definition Plane_fromValues :: "real \<Rightarrow> real \<Rightarrow> real \<Rightarrow> real \<Rightarrow> plane" where
  "Plane_fromValues a b c d = ((a, b, c), d)"

definition xzPlane :: plane where
  "xzPlane = Plane_fromValues 0 1 0 0"

text \<open>
  Modelled from the spec: \<^verbatim>\<open>Plane.intersectRay\<close> belongs to the host's math library
  (\<^verbatim>\<open>tfw/core/math\<close>), which is not under \<^verbatim>\<open>src/\<close>.  It returns the distance along the
  ray at which the ray meets the plane; for a ray parallel to the plane the quotient has
  no value, which is the \<^verbatim>\<open>NaN\<close> the caller's comment reckons with.
\<close>

definition Plane_intersectRay :: "plane \<Rightarrow> vec3 \<Rightarrow> vec3 \<Rightarrow> real option" where
  "Plane_intersectRay pl origin direction =
     (let divisor = vec3_dot (fst pl) direction
      in if divisor = 0 then None
         else Some (- (vec3_dot (fst pl) origin + snd pl) / divisor))"

definition Ray_getPoint :: "vec3 \<Rightarrow> vec3 \<Rightarrow> real \<Rightarrow> vec3" where
  "Ray_getPoint origin direction distance = vec3_scaleAndAdd origin direction distance"

record hover =
  worldPosition :: vec3
  viewMovement :: vec2

text \<open>
  \<^verbatim>\<open>CameraController.getXZPlaneIntersection\<close>, as a function of the camera's position
  (\<^verbatim>\<open>this.transform.position\<close>).  The source returns a boolean and writes the point into
  \<^verbatim>\<open>result\<close> only when it returns true; the model returns the point, or \<open>None\<close> for false.
\<close>

definition getXZPlaneIntersection :: "vec3 \<Rightarrow> hover \<Rightarrow> vec3 option" where
  "getXZPlaneIntersection cameraPosition hov =
     (let origin = cameraPosition;
          direction = vec3_normalize (vec3_subtract (worldPosition hov) origin)
      in case Plane_intersectRay xzPlane origin direction of
           None \<Rightarrow> None
         | Some distance \<Rightarrow>
             if \<not> (distance > 0) then None
             else Some (Ray_getPoint origin direction distance))"

text \<open>
  \<^verbatim>\<open>Selector._getXZPlaneIntersection\<close>: the first active camera may be missing; when there
  is one, its controller answers.  The argument is the position of that camera, if any.
\<close>

definition Selector_getXZPlaneIntersection :: "vec3 option \<Rightarrow> hover \<Rightarrow> vec3 option" where
  "Selector_getXZPlaneIntersection activeCamera hov =
     (case activeCamera of
        None \<Rightarrow> None
      | Some cameraPosition \<Rightarrow> getXZPlaneIntersection cameraPosition hov)"

section \<open>The selection and the Selector's pointer handlers\<close>

text \<open>
  The selection is a set of object ids, and the module keeps two sets of Selectors.  Such a
  set remembers insertion order (a JavaScript \<^verbatim>\<open>Set\<close>): it is a list, to which
  \<open>add\<close> appends an absent element.
\<close>

type_synonym ident = string

definition Set_has :: "'a list \<Rightarrow> 'a \<Rightarrow> bool" where
  "Set_has s x = (x \<in> set s)"

definition Set_add :: "'a list \<Rightarrow> 'a \<Rightarrow> 'a list" where
  "Set_add s x = (if x \<in> set s then s else s @ [x])"

definition Set_delete :: "'a list \<Rightarrow> 'a \<Rightarrow> 'a list" where
  "Set_delete s x = removeAll x s"

definition Set_clear :: "'a list \<Rightarrow> 'a list" where
  "Set_clear s = []"

record gameObject =
  go_id :: ident
  go_name :: ident
  position :: vec3

datatype error = MissingGameObject ident

text \<open>\<^verbatim>\<open>gameObjects.require(id)\<close> throws when no game object has the id.\<close>

definition require :: "(ident \<rightharpoonup> gameObject) \<Rightarrow> ident \<Rightarrow> error + gameObject" where
  "require objs i = (case objs i of None \<Rightarrow> Inl (MissingGameObject i) | Some g \<Rightarrow> Inr g)"

text \<open>
  The fields of a \<^verbatim>\<open>Selector\<close> that its pointer handlers read and write: the game object it
  is attached to (whose transform is \<^verbatim>\<open>this.transform\<close>) and \<^verbatim>\<open>_intersectionToCenter\<close>.
\<close>

record selector =
  gameObject :: gameObject
  intersectionToCenter :: "vec3 option"

text \<open>The loop of \<^verbatim>\<open>_getCenter\<close>, summing the positions of the selected objects.\<close>

fun sumPositions :: "(ident \<rightharpoonup> gameObject) \<Rightarrow> ident list \<Rightarrow> vec3 \<Rightarrow> error + vec3" where
  "sumPositions objs [] center = Inr center"
| "sumPositions objs (i # ids) center =
     (case require objs i of
        Inl e \<Rightarrow> Inl e
      | Inr g \<Rightarrow> sumPositions objs ids (vec3_add center (position g)))"

definition getCenter :: "(ident \<rightharpoonup> gameObject) \<Rightarrow> ident list \<Rightarrow> selector \<Rightarrow> error + vec3" where
  "getCenter objs sel this =
     (if \<not> Set_has sel (go_id (gameObject this)) then Inr (position (gameObject this))
      else case sumPositions objs sel vec3_create of
             Inl e \<Rightarrow> Inl e
           | Inr center \<Rightarrow> Inr (vec3_scale center (1 / real (length sel))))"

text \<open>
  \<^verbatim>\<open>Selector.onPointerDown\<close>.  The first argument is \<^verbatim>\<open>controlKeyState.current\<close>.  The
  selection is updated first; the result is the new selection together with the Selector
  after the handler, or the error thrown by \<^verbatim>\<open>_getCenter\<close> (the Selector is then as
  before, the selection already updated).
\<close>

definition updateSelection :: "bool \<Rightarrow> ident list \<Rightarrow> ident \<Rightarrow> ident list" where
  "updateSelection control sel i =
     (if control then
        (if Set_has sel i then Set_delete sel i else Set_add sel i)
      else if \<not> Set_has sel i then Set_add (Set_clear sel) i
      else sel)"

definition Selector_onPointerDown ::
  "bool \<Rightarrow> vec3 option \<Rightarrow> (ident \<rightharpoonup> gameObject) \<Rightarrow> hover \<Rightarrow> ident list \<Rightarrow> selector
     \<Rightarrow> ident list \<times> (error + selector)" where
  "Selector_onPointerDown control activeCamera objs hov sel this =
     (let sel' = updateSelection control sel (go_id (gameObject this))
      in (sel',
          case Selector_getXZPlaneIntersection activeCamera hov of
            Some intersection \<Rightarrow>
              (case getCenter objs sel' this of
                 Inl e \<Rightarrow> Inl e
               | Inr center \<Rightarrow>
                   Inr (this\<lparr>intersectionToCenter := Some (vec3_subtract center intersection)\<rparr>))
          | None \<Rightarrow> Inr (this\<lparr>intersectionToCenter := None\<rparr>)))"

text \<open>
  \<^verbatim>\<open>Selector.onPointerDrag\<close>.  The first argument is \<^verbatim>\<open>shiftKeyState.current\<close>.  The handler
  changes no field; it either returns early (\<open>Inr None\<close>), throws (\<open>Inl\<close>), or hands an
  edit to \<^verbatim>\<open>applyEdit\<close> (\<open>Inr (Some edit)\<close>): a map from object ids to new positions.
\<close>

type_synonym edit = "ident \<rightharpoonup> vec3"

fun editSelected ::
  "(ident \<rightharpoonup> gameObject) \<Rightarrow> ident list \<Rightarrow> vec3 \<Rightarrow> vec3 \<Rightarrow> edit \<Rightarrow> error + edit" where
  "editSelected objs [] oldCenter newCenter ed = Inr ed"
| "editSelected objs (i # ids) oldCenter newCenter ed =
     (case require objs i of
        Inl e \<Rightarrow> Inl e
      | Inr g \<Rightarrow>
          editSelected objs ids oldCenter newCenter
            (ed(i \<mapsto> vec3_add (vec3_subtract (position g) oldCenter) newCenter)))"

text \<open>The edit built from the old and the new center (the source's lines 87 to 100).\<close>

definition buildEdit ::
  "(ident \<rightharpoonup> gameObject) \<Rightarrow> ident list \<Rightarrow> selector \<Rightarrow> vec3 \<Rightarrow> vec3 \<Rightarrow> error + edit option" where
  "buildEdit objs sel this oldCenter newCenter =
     (if Set_has sel (go_id (gameObject this)) then
        (case editSelected objs sel oldCenter newCenter Map.empty of
           Inl e \<Rightarrow> Inl e
         | Inr ed \<Rightarrow> Inr (Some ed))
      else Inr (Some [go_id (gameObject this) \<mapsto> newCenter]))"

text \<open>The grid snapping of the new center (the source's lines 82 to 86).\<close>

definition snapCenter :: "bool \<Rightarrow> vec3 \<Rightarrow> vec3 \<Rightarrow> vec3" where
  "snapCenter shift oldCenter newCenter =
     (if \<not> shift then
        (let delta = vec3_round (vec3_subtract newCenter oldCenter)
         in vec3_add oldCenter delta)
      else newCenter)"

definition Selector_onPointerDrag ::
  "bool \<Rightarrow> vec3 option \<Rightarrow> (ident \<rightharpoonup> gameObject) \<Rightarrow> hover \<Rightarrow> ident list \<Rightarrow> selector
     \<Rightarrow> error + edit option" where
  "Selector_onPointerDrag shift activeCamera objs hov sel this =
     (case intersectionToCenter this of
        None \<Rightarrow> Inr None
      | Some toCenter \<Rightarrow>
          (case Selector_getXZPlaneIntersection activeCamera hov of
             None \<Rightarrow> Inr None
           | Some intersection \<Rightarrow>
               (case getCenter objs sel this of
                  Inl e \<Rightarrow> Inl e
                | Inr oldCenter \<Rightarrow>
                    (let newCenter = snapCenter shift oldCenter (vec3_add intersection toCenter)
                     in buildEdit objs sel this oldCenter newCenter))))"

section \<open>The camera controller\<close>

text \<open>
  A Selector is referred to by a number (its reference).  What the host engine provides is a
  parameter of the model: the quaternion functions of its math library, the render engine's
  overlap query (answering with the Selectors of the overlapped transforms), and the game
  object each Selector is attached to.
\<close>

type_synonym quat = "real \<times> real \<times> real \<times> real"
type_synonym sref = nat
type_synonym bounds = "vec3 \<times> vec3"

record host =
  quat_fromEuler :: "real \<Rightarrow> real \<Rightarrow> real \<Rightarrow> quat"
  vec3_transformQuat :: "vec3 \<Rightarrow> quat \<Rightarrow> vec3"
  overlapBounds :: "bounds \<Rightarrow> sref list"
  gameObjectOf :: "sref \<Rightarrow> gameObject"

text \<open>
  Modelled from the spec: \<^verbatim>\<open>clamp\<close> belongs to the host's math library
  (\<^verbatim>\<open>tfw/core/math\<close>), which is not under \<^verbatim>\<open>src/\<close>; it limits a value to a range.
\<close>

definition clamp :: "real \<Rightarrow> real \<Rightarrow> real \<Rightarrow> real" where
  "clamp v lo hi = min (max v lo) hi"

definition SMALL_SCALE :: real where
  "SMALL_SCALE = 1 / 1000000"

text \<open>The transform of the game object that shows the selected region.\<close>

record region =
  region_position :: vec3
  region_localScale :: vec3

record cameraController =
  target :: vec3
  azimuth :: real
  elevation :: real
  distance :: real
  selectRegion :: "region option"
  selectStartPosition :: vec3
  transform_position :: vec3
  transform_rotation :: quat

text \<open>
  The module's state around the camera controller: the selection, the two sets of Selectors
  and each Selector's \<^verbatim>\<open>groupHovered\<close> value.
\<close>

record editor =
  camera :: cameraController
  selection :: "ident list"
  selectors :: "sref list"
  lastSelectors :: "sref list"
  groupHovered :: "sref \<Rightarrow> bool"

text \<open>The field initialisers of \<^verbatim>\<open>CameraController\<close>; the transform is the host's.\<close>

definition initialCamera :: "vec3 \<Rightarrow> quat \<Rightarrow> cameraController" where
  "initialCamera p r =
     \<lparr>target = vec3_create, azimuth = 0, elevation = - 45, distance = 10,
      selectRegion = None, selectStartPosition = vec3_create,
      transform_position = p, transform_rotation = r\<rparr>"

definition reset :: "cameraController \<Rightarrow> cameraController" where
  "reset c = c\<lparr>target := (0, 0, 0), azimuth := 0, elevation := - 45, distance := 10\<rparr>"

text \<open>
  The callback that \<^verbatim>\<open>awake\<close> registers on the four properties: the host runs it with
  their current values when one of them changes.
\<close>

definition onValue :: "host \<Rightarrow> cameraController \<Rightarrow> cameraController" where
  "onValue h c =
     (let rotation = quat_fromEuler h (elevation c) (azimuth c) 0;
          offset = vec3_transformQuat h (0, 0, distance c) rotation
      in c\<lparr>transform_rotation := rotation,
           transform_position := vec3_add (target c) offset\<rparr>)"

definition addToDistance :: "real \<Rightarrow> cameraController \<Rightarrow> cameraController" where
  "addToDistance amount c = c\<lparr>distance := max (1 / 2) (distance c + amount)\<rparr>"

text \<open>
  \<^verbatim>\<open>CameraController.onPointerDown\<close>; the first two arguments are the state of mouse
  button 0 and of the shift key.
\<close>

definition CameraController_onPointerDown :: "bool \<Rightarrow> bool \<Rightarrow> hover \<Rightarrow> editor \<Rightarrow> editor" where
  "CameraController_onPointerDown button0 shift hov ed =
     (if button0 \<and> shift then
        (let ed' = ed\<lparr>selection := Set_clear (selection ed)\<rparr>
         in case getXZPlaneIntersection (transform_position (camera ed)) hov of
              None \<Rightarrow> ed'
            | Some start \<Rightarrow>
                ed'\<lparr>camera := (camera ed)
                      \<lparr>selectStartPosition := start,
                       selectRegion := Some \<lparr>region_position = start,
                         region_localScale = (SMALL_SCALE, 1, SMALL_SCALE)\<rparr>\<rparr>\<rparr>)
      else ed)"

text \<open>
  The marquee branch of \<^verbatim>\<open>CameraController.onPointerDrag\<close>, from the overlap query on:
  the overlapped Selectors become group-hovered and are collected, those of the previous
  drag that are not among them stop being group-hovered, and the two sets are swapped.
\<close>

definition hoverOverlapped :: "sref list \<Rightarrow> editor \<Rightarrow> editor" where
  "hoverOverlapped transforms ed =
     fold (\<lambda>s e. e\<lparr>groupHovered := (groupHovered e)(s := True),
                    selectors := Set_add (selectors e) s\<rparr>) transforms ed"

definition unhoverLast :: "editor \<Rightarrow> editor" where
  "unhoverLast ed =
     fold (\<lambda>s e. if \<not> Set_has (selectors e) s
                  then e\<lparr>groupHovered := (groupHovered e)(s := False)\<rparr> else e)
       (lastSelectors ed) ed"

definition swapSelectors :: "editor \<Rightarrow> editor" where
  "swapSelectors ed =
     ed\<lparr>selectors := Set_clear (lastSelectors ed), lastSelectors := selectors ed\<rparr>"

text \<open>
  \<^verbatim>\<open>CameraController.onPointerDrag\<close>; the second and third argument are the state of
  mouse buttons 0 and 1.  The region object has no parent, so that its local position is
  its position.
\<close>

definition CameraController_onPointerDrag ::
  "host \<Rightarrow> bool \<Rightarrow> bool \<Rightarrow> hover \<Rightarrow> editor \<Rightarrow> editor" where
  "CameraController_onPointerDrag h button0 button1 hov ed =
     (let c = camera ed in
      case selectRegion c of
        Some r \<Rightarrow>
          (case getXZPlaneIntersection (transform_position c) hov of
             None \<Rightarrow> ed
           | Some tmpv \<Rightarrow>
               (let start = selectStartPosition c;
                    r' = r\<lparr>region_position := vec3_scale (vec3_add start tmpv) (1 / 2),
                           region_localScale :=
                             (max SMALL_SCALE \<bar>vx tmpv - vx start\<bar>, 1,
                              max SMALL_SCALE \<bar>vz tmpv - vz start\<bar>)\<rparr>;
                    bmin = vec3_min start tmpv;
                    bmax = vec3_max start tmpv;
                    tmpb = ((vx bmin, vy bmin - 1 / 2, vz bmin), (vx bmax, vy bmax + 1 / 2, vz bmax));
                    transforms = overlapBounds h tmpb
                in swapSelectors (unhoverLast (hoverOverlapped transforms
                     (ed\<lparr>camera := c\<lparr>selectRegion := Some r'\<rparr>\<rparr>)))))
      | None \<Rightarrow>
          if button0 then
            ed\<lparr>camera := c\<lparr>azimuth := azimuth c + fst (viewMovement hov) * - 180,
                            elevation := clamp (elevation c + snd (viewMovement hov) * 180) (- 90) 90\<rparr>\<rparr>
          else if button1 then
            ed\<lparr>camera := addToDistance (snd (viewMovement hov) * - 20) c\<rparr>
          else
            (let tmpv = vec3_transformQuat h (- fst (viewMovement hov), 0, snd (viewMovement hov))
                          (quat_fromEuler h 0 (azimuth c) 0)
             in ed\<lparr>camera := c\<lparr>target := vec3_scaleAndAdd (target c) tmpv (distance c)\<rparr>\<rparr>))"

text \<open>\<^verbatim>\<open>CameraController.onPointerUp\<close>.\<close>

definition selectHovered :: "host \<Rightarrow> editor \<Rightarrow> editor" where
  "selectHovered h ed =
     fold (\<lambda>s e. e\<lparr>groupHovered := (groupHovered e)(s := False),
                    selection := Set_add (selection e) (go_name (gameObjectOf h s))\<rparr>)
       (lastSelectors ed) ed"

definition CameraController_onPointerUp :: "host \<Rightarrow> editor \<Rightarrow> editor" where
  "CameraController_onPointerUp h ed =
     (case selectRegion (camera ed) of
        None \<Rightarrow> ed
      | Some r \<Rightarrow>
          (let ed' = ed\<lparr>camera := (camera ed)\<lparr>selectRegion := None\<rparr>\<rparr>
           in if length (lastSelectors ed') > 0
              then (selectHovered h ed')\<lparr>lastSelectors := Set_clear (lastSelectors ed')\<rparr>
              else ed'))"

text \<open>\<^verbatim>\<open>CameraController.onWheel\<close>; \<open>sgn\<close> is \<^verbatim>\<open>Math.sign\<close>.\<close>

definition CameraController_onWheel :: "vec3 \<Rightarrow> editor \<Rightarrow> editor" where
  "CameraController_onWheel delta ed =
     ed\<lparr>camera := addToDistance (1 / 2 * sgn (vy delta)) (camera ed)\<rparr>"

text \<open>
  The events a camera controller receives, and the editor after one of them.  After each
  handler the property callback runs, as the host does when a property has changed.
\<close>

datatype event =
    PointerDown bool bool hover
  | PointerDrag bool bool hover
  | PointerUp
  | Wheel vec3
  | Reset

fun handle :: "host \<Rightarrow> event \<Rightarrow> editor \<Rightarrow> editor" where
  "handle h (PointerDown button0 shift hov) ed = CameraController_onPointerDown button0 shift hov ed"
| "handle h (PointerDrag button0 button1 hov) ed = CameraController_onPointerDrag h button0 button1 hov ed"
| "handle h PointerUp ed = CameraController_onPointerUp h ed"
| "handle h (Wheel delta) ed = CameraController_onWheel delta ed"
| "handle h Reset ed = ed\<lparr>camera := reset (camera ed)\<rparr>"

definition step :: "host \<Rightarrow> event \<Rightarrow> editor \<Rightarrow> editor" where
  "step h ev ed = (let ed' = handle h ev ed in ed'\<lparr>camera := onValue h (camera ed')\<rparr>)"

definition run :: "host \<Rightarrow> event list \<Rightarrow> editor \<Rightarrow> editor" where
  "run h evs ed = fold (step h) evs ed"

definition initialEditor :: "host \<Rightarrow> editor" where
  "initialEditor h =
     \<lparr>camera = onValue h (initialCamera vec3_create (0, 0, 0, 1)),
      selection = [], selectors = [], lastSelectors = [], groupHovered = (\<lambda>s. False)\<rparr>"

section \<open>The outline\<close>

text \<open>
  An \<^verbatim>\<open>Object3D\<close> is a node, known by a number, that may be a \<^verbatim>\<open>Mesh\<close>, with its
  children.  \<^verbatim>\<open>traverse\<close> calls the callback on the object and then traverses each child.
\<close>

datatype object3d = Object3D (node: nat) (isMesh: bool) (children: "object3d list")

fun traverse :: "(object3d \<Rightarrow> 's \<Rightarrow> 's) \<Rightarrow> object3d \<Rightarrow> 's \<Rightarrow> 's" where
  "traverse callback (Object3D n m cs) s =
     fold (traverse callback) cs (callback (Object3D n m cs) s)"

text \<open>
  What \<^verbatim>\<open>_setOutline\<close> and \<^verbatim>\<open>_clearOutline\<close> touch of a mesh: the layers it is on, and
  its pair of render callbacks.  \<open>forcedOpacity = Some v\<close> stands for the pair that
  \<^verbatim>\<open>_setOutline\<close> installs (\<^verbatim>\<open>onBeforeRender\<close> saves the material's opacity and sets it to
  \<open>v\<close>, \<^verbatim>\<open>onAfterRender\<close> puts the saved opacity back), \<open>None\<close> for callbacks that do
  nothing.
\<close>

record mesh =
  layers :: "nat set"
  forcedOpacity :: "real option"

text \<open>
  Drawing a mesh whose material has the given opacity: the opacity it is drawn with, and
  the material's opacity afterwards.
\<close>

definition drawMesh :: "mesh \<Rightarrow> real \<Rightarrow> real \<times> real" where
  "drawMesh m opacity =
     (case forcedOpacity m of
        Some v \<Rightarrow> (let previousOpacity = opacity in (v, previousOpacity))
      | None \<Rightarrow> (opacity, opacity))"

datatype remover = NoopRemover | RemoveAfterRender

text \<open>
  The module's outline state and the part of the scene it acts on: the counter, the
  remover, whether the render target exists, whether the render engine's
  \<^verbatim>\<open>onAfterRender\<close> is set (to the callback that renders the meshes on the outline layer
  into the render target and composites it over the frame), the \<^verbatim>\<open>_outlineObject\<close> of
  every Selector that has one, and the meshes by node.
\<close>

record outlines =
  outlineCount :: int
  outlineRemover :: remover
  renderTarget :: bool
  onAfterRender :: bool
  outlineObject :: "(sref, object3d) fmap"
  meshes :: "nat \<Rightarrow> mesh"

definition initialOutlines :: "(nat \<Rightarrow> mesh) \<Rightarrow> outlines" where
  "initialOutlines ms =
     \<lparr>outlineCount = 0, outlineRemover = NoopRemover, renderTarget = False,
      onAfterRender = False, outlineObject = fmempty, meshes = ms\<rparr>"

definition callRemover :: "remover \<Rightarrow> outlines \<Rightarrow> outlines" where
  "callRemover r w = (case r of NoopRemover \<Rightarrow> w | RemoveAfterRender \<Rightarrow> w\<lparr>onAfterRender := False\<rparr>)"

definition disableNode :: "nat \<Rightarrow> object3d \<Rightarrow> (nat \<Rightarrow> mesh) \<Rightarrow> (nat \<Rightarrow> mesh)" where
  "disableNode OUTLINE_LAYER nd ms =
     (if \<not> isMesh nd then ms
      else ms(node nd := (ms (node nd))\<lparr>forcedOpacity := None,
                layers := layers (ms (node nd)) - {OUTLINE_LAYER}\<rparr>))"

definition enableNode :: "nat \<Rightarrow> bool \<Rightarrow> object3d \<Rightarrow> (nat \<Rightarrow> mesh) \<Rightarrow> (nat \<Rightarrow> mesh)" where
  "enableNode OUTLINE_LAYER selected nd ms =
     (if \<not> isMesh nd then ms
      else ms(node nd := (ms (node nd))\<lparr>layers := insert OUTLINE_LAYER (layers (ms (node nd))),
                forcedOpacity := Some (if selected then 8 / 10 else 4 / 10)\<rparr>))"

text \<open>
  \<^verbatim>\<open>Selector._clearOutline\<close> and \<^verbatim>\<open>Selector._setOutline\<close> of the Selector \<open>this\<close>.  The
  constant \<^verbatim>\<open>OUTLINE_LAYER\<close> is defined in \<^verbatim>\<open>ui/model\<close>, which is not under \<^verbatim>\<open>src/\<close>: it
  is the first argument.
\<close>

definition clearOutline :: "nat \<Rightarrow> sref \<Rightarrow> outlines \<Rightarrow> outlines" where
  "clearOutline OUTLINE_LAYER this w =
     (case fmlookup (outlineObject w) this of
        None \<Rightarrow> w
      | Some object \<Rightarrow>
          (let w' = w\<lparr>meshes := traverse (disableNode OUTLINE_LAYER) object (meshes w),
                      outlineObject := fmdrop this (outlineObject w),
                      outlineCount := outlineCount w - 1\<rparr>
           in if outlineCount w' = 0 then callRemover (outlineRemover w') w' else w'))"

definition setOutline :: "nat \<Rightarrow> sref \<Rightarrow> object3d \<Rightarrow> bool \<Rightarrow> outlines \<Rightarrow> outlines" where
  "setOutline OUTLINE_LAYER this object selected w =
     (let w1 = clearOutline OUTLINE_LAYER this w;
          w2 = w1\<lparr>outlineObject := fmupd this object (outlineObject w1),
                  meshes := traverse (enableNode OUTLINE_LAYER selected) object (meshes w1),
                  outlineCount := outlineCount w1 + 1\<rparr>
      in if outlineCount w2 = 1
         then w2\<lparr>renderTarget := True, onAfterRender := True,
                 outlineRemover := RemoveAfterRender\<rparr>
         else w2)"

text \<open>
  The callback that \<^verbatim>\<open>Selector.awake\<close> registers: the number of hovers and the object of
  the \<^verbatim>\<open>hoverable\<close> component (zero and no object without the component), the Selector's
  \<^verbatim>\<open>groupHovered\<close> value, and whether the selection has the game object's id.
\<close>

definition Selector_onValue ::
  "nat \<Rightarrow> sref \<Rightarrow> nat \<Rightarrow> object3d option \<Rightarrow> bool \<Rightarrow> bool \<Rightarrow> outlines \<Rightarrow> outlines" where
  "Selector_onValue OUTLINE_LAYER this hovered object groupHov selected w =
     (case object of
        Some ob \<Rightarrow>
          if hovered \<noteq> 0 \<or> groupHov \<or> selected then setOutline OUTLINE_LAYER this ob selected w
          else clearOutline OUTLINE_LAYER this w
      | None \<Rightarrow> clearOutline OUTLINE_LAYER this w)"

text \<open>Sequences of outline operations, each on some Selector.\<close>

datatype outlineOp = SetOutline sref object3d bool | ClearOutline sref

fun applyOp :: "nat \<Rightarrow> outlineOp \<Rightarrow> outlines \<Rightarrow> outlines" where
  "applyOp OUTLINE_LAYER (SetOutline this object selected) w = setOutline OUTLINE_LAYER this object selected w"
| "applyOp OUTLINE_LAYER (ClearOutline this) w = clearOutline OUTLINE_LAYER this w"

definition applyOps :: "nat \<Rightarrow> outlineOp list \<Rightarrow> outlines \<Rightarrow> outlines" where
  "applyOps OUTLINE_LAYER ops w = fold (applyOp OUTLINE_LAYER) ops w"

text \<open>The nodes of an object that are meshes.\<close>

fun meshNodes :: "object3d \<Rightarrow> nat set" where
  "meshNodes (Object3D n m cs) = (if m then {n} else {}) \<union> (\<Union>c \<in> set cs. meshNodes c)"

section \<open>Notions used in the statements\<close>

text \<open>The arithmetic mean of a list of positions, and the position of the object with an id.\<close>

fun sumVec :: "vec3 list \<Rightarrow> vec3" where
  "sumVec [] = (0, 0, 0)"
| "sumVec (p # ps) = vec3_add p (sumVec ps)"

definition mean :: "vec3 list \<Rightarrow> vec3" where
  "mean ps = vec3_scale (sumVec ps) (1 / real (length ps))"

definition positionOf :: "(ident \<rightharpoonup> gameObject) \<Rightarrow> ident \<Rightarrow> vec3" where
  "positionOf objs i = (case objs i of Some g \<Rightarrow> position g | None \<Rightarrow> vec3_create)"

text \<open>The direction of the ray from the camera through the hovered point.\<close>

definition rayDirection :: "vec3 \<Rightarrow> hover \<Rightarrow> vec3" where
  "rayDirection cameraPosition hov =
     vec3_normalize (vec3_subtract (worldPosition hov) cameraPosition)"

text \<open>
  The orbit equations of the camera, and the bounds that the handlers keep on the
  elevation and the distance.
\<close>

definition orbitEquations :: "host \<Rightarrow> cameraController \<Rightarrow> bool" where
  "orbitEquations h c =
     (transform_rotation c = quat_fromEuler h (elevation c) (azimuth c) 0
      \<and> transform_position c =
          vec3_add (target c) (vec3_transformQuat h (0, 0, distance c) (transform_rotation c)))"

definition cameraInvariant :: "cameraController \<Rightarrow> bool" where
  "cameraInvariant c = (- 90 \<le> elevation c \<and> elevation c \<le> 90 \<and> 1 / 2 \<le> distance c)"

text \<open>
  The outline counter counts the Selectors that have an outline object, the render
  engine's callback is set exactly when the counter is positive, and as long as the
  counter is positive the remover is the one that unsets the callback and the render
  target exists.
\<close>

definition outlineInvariant :: "outlines \<Rightarrow> bool" where
  "outlineInvariant w =
     (outlineCount w = int (fcard (fmdom (outlineObject w)))
      \<and> onAfterRender w = (0 < outlineCount w)
      \<and> (0 < outlineCount w \<longrightarrow> outlineRemover w = RemoveAfterRender \<and> renderTarget w))"

section \<open>A small scene\<close>

text \<open>
  Two game objects whose names differ from their ids, a hover at a point, a Selector in
  the middle of a drag, a host whose overlap query answers with Selector 0 (attached to
  the cube), an editor whose camera is ten units above the origin, and an object with two
  meshes.  The statements below are evaluated on them.
\<close>

definition cube :: gameObject where
  "cube = \<lparr>go_id = ''1'', go_name = ''cube'', position = (2, 0, 3)\<rparr>"

definition ball :: gameObject where
  "ball = \<lparr>go_id = ''2'', go_name = ''ball'', position = (4, 0, 1)\<rparr>"

definition scene :: "ident \<rightharpoonup> gameObject" where
  "scene = [''1'' \<mapsto> cube, ''2'' \<mapsto> ball]"

definition hoverAt :: "vec3 \<Rightarrow> hover" where
  "hoverAt p = \<lparr>worldPosition = p, viewMovement = (0, 0)\<rparr>"

definition dragged :: selector where
  "dragged = \<lparr>gameObject = cube, intersectionToCenter = Some (1, 0, 0)\<rparr>"

definition testHost :: host where
  "testHost =
     \<lparr>quat_fromEuler = (\<lambda>x y z. (0, 0, 0, 1)),
      vec3_transformQuat = (\<lambda>v q. v),
      overlapBounds = (\<lambda>b. [0]),
      gameObjectOf = (\<lambda>s. cube)\<rparr>"

definition marqueeStart :: editor where
  "marqueeStart =
     \<lparr>camera = initialCamera (0, 10, 0) (0, 0, 0, 1),
      selection = [], selectors = [], lastSelectors = [], groupHovered = (\<lambda>s. False)\<rparr>"

definition plainMeshes :: "nat \<Rightarrow> mesh" where
  "plainMeshes n = \<lparr>layers = {0}, forcedOpacity = None\<rparr>"

definition crate :: object3d where
  "crate = Object3D 1 False [Object3D 2 True [], Object3D 3 True []]"

section \<open>The selection under a pointer-down\<close>

lemma set_Set_add: "set (Set_add s x) = insert x (set s)"
  by (auto simp: Set_add_def)

lemma set_Set_delete: "set (Set_delete s x) = set s - {x}"
  by (simp add: Set_delete_def)

lemma distinct_Set_add: "distinct s \<Longrightarrow> distinct (Set_add s x)"
  by (simp add: Set_add_def)

lemma distinct_Set_delete: "distinct s \<Longrightarrow> distinct (Set_delete s x)"
  by (simp add: Set_delete_def distinct_removeAll)

lemma distinct_updateSelection: "distinct sel \<Longrightarrow> distinct (updateSelection control sel i)"
  by (simp add: updateSelection_def distinct_Set_add distinct_Set_delete Set_clear_def Set_add_def)

lemma fst_onPointerDown:
  "fst (Selector_onPointerDown control cam objs hov sel this) =
     updateSelection control sel (go_id (gameObject this))"
  by (simp add: Selector_onPointerDown_def Let_def)

text \<open>
  C2: a pointer-down on a Selector with the control key held toggles the object's id in
  the selection: the id is in the selection afterwards exactly when it was not before,
  and every other id is in the selection afterwards exactly when it was before.
\<close>

theorem C2_control_click_toggles:
  "Set_has (fst (Selector_onPointerDown True cam objs hov sel this)) (go_id (gameObject this))
     = (\<not> Set_has sel (go_id (gameObject this)))
   \<and> (\<forall>j. j \<noteq> go_id (gameObject this) \<longrightarrow>
         Set_has (fst (Selector_onPointerDown True cam objs hov sel this)) j = Set_has sel j)"
  by (simp add: fst_onPointerDown updateSelection_def Set_has_def set_Set_add set_Set_delete)

theorem C2_control_click_toggles_witness:
  "Set_has (fst (Selector_onPointerDown True None scene (hoverAt (0, 0, 0)) [''1'', ''2'']
       \<lparr>gameObject = cube, intersectionToCenter = None\<rparr>)) ''1'' = False
   \<and> Set_has (fst (Selector_onPointerDown True None scene (hoverAt (0, 0, 0)) [''1'', ''2'']
       \<lparr>gameObject = cube, intersectionToCenter = None\<rparr>)) ''2'' = True
   \<and> fst (Selector_onPointerDown True None scene (hoverAt (0, 0, 0)) [''2'']
       \<lparr>gameObject = cube, intersectionToCenter = None\<rparr>) = [''2'', ''1'']"
  using C2_control_click_toggles [of None scene "hoverAt (0, 0, 0)" "[''1'', ''2'']"
      "\<lparr>gameObject = cube, intersectionToCenter = None\<rparr>"]
  by (simp add: cube_def Set_has_def fst_onPointerDown updateSelection_def Set_add_def)

text \<open>
  C3: a pointer-down on a Selector without the control key: when the object's id is not
  in the selection, the selection afterwards holds that id and nothing else; when it is,
  the selection is unchanged.
\<close>

theorem C3_plain_click_selects:
  "fst (Selector_onPointerDown False cam objs hov sel this) =
     (if Set_has sel (go_id (gameObject this)) then sel else [go_id (gameObject this)])"
  by (simp add: fst_onPointerDown updateSelection_def Set_has_def Set_add_def Set_clear_def)

section \<open>The plane intersection\<close>

lemma getXZPlaneIntersection_eq:
  "getXZPlaneIntersection cp hov =
     (let d = vec3_normalize (vec3_subtract (worldPosition hov) cp)
      in if vy d \<noteq> 0 \<and> 0 < - vy cp / vy d then Some (Ray_getPoint cp d (- vy cp / vy d))
         else None)"
  by (cases cp, cases "vec3_normalize (vec3_subtract (worldPosition hov) cp)")
    (simp add: getXZPlaneIntersection_def Plane_intersectRay_def xzPlane_def
      Plane_fromValues_def Let_def)

text \<open>A hover at a point of the plane, the camera off the plane: the intersection is the point.\<close>

lemma getXZPlaneIntersection_on_plane:
  assumes "vy w = 0" and "vy cp \<noteq> 0"
  shows "getXZPlaneIntersection cp \<lparr>worldPosition = w, viewMovement = m\<rparr> = Some w"
proof -
  obtain wx wy wz where w: "w = (wx, wy, wz)" by (cases w)
  obtain cx cy cz where c: "cp = (cx, cy, cz)" by (cases cp)
  from assms w c have wy: "wy = 0" and cy: "cy \<noteq> 0" by simp_all
  define len where "len = (wx - cx) * (wx - cx) + (0 - cy) * (0 - cy) + (wz - cz) * (wz - cz)"
  have "0 < (0 - cy) * (0 - cy)" using cy by (auto simp: zero_less_mult_iff)
  moreover have "0 \<le> (wx - cx) * (wx - cx)" "0 \<le> (wz - cz) * (wz - cz)" by simp_all
  ultimately have len: "0 < len" unfolding len_def by linarith
  then have L: "0 < sqrt len" by simp
  have d: "vec3_normalize (vec3_subtract (wx, 0, wz) (cx, cy, cz)) =
             ((wx - cx) * (1 / sqrt len), (0 - cy) * (1 / sqrt len), (wz - cz) * (1 / sqrt len))"
    using len by (simp add: Let_def len_def)
  have t: "- cy / ((0 - cy) * (1 / sqrt len)) = sqrt len"
    using cy L by (simp add: field_simps)
  have p: "Ray_getPoint (cx, cy, cz)
             ((wx - cx) * (1 / sqrt len), (0 - cy) * (1 / sqrt len), (wz - cz) * (1 / sqrt len))
             (sqrt len) = (wx, 0, wz)"
    using L by (simp add: Ray_getPoint_def)
  have nz: "(0 - cy) * (1 / sqrt len) \<noteq> 0"
    using cy L by simp
  show ?thesis
    unfolding getXZPlaneIntersection_eq w c wy
    using nz L by (simp only: hover.simps Let_def d vy.simps t p if_True simp_thms)
qed

lemma hoverAt_on_plane:
  "vy w = 0 \<Longrightarrow> vy cp \<noteq> 0 \<Longrightarrow> getXZPlaneIntersection cp (hoverAt w) = Some w"
  by (simp add: hoverAt_def getXZPlaneIntersection_on_plane)

lemma getXZPlaneIntersection_Some_iff:
  "(getXZPlaneIntersection cp hov = Some p) =
     (vy (rayDirection cp hov) \<noteq> 0
      \<and> (\<exists>t. 0 < t \<and> vy (Ray_getPoint cp (rayDirection cp hov) t) = 0
               \<and> p = Ray_getPoint cp (rayDirection cp hov) t))"
proof -
  obtain cx cy cz where c: "cp = (cx, cy, cz)" by (cases cp)
  obtain dx dy dz where d: "rayDirection cp hov = (dx, dy, dz)" by (cases "rayDirection cp hov")
  have eq: "getXZPlaneIntersection cp hov =
      (if dy \<noteq> 0 \<and> 0 < - cy / dy then Some (Ray_getPoint cp (dx, dy, dz) (- cy / dy)) else None)"
    using d by (simp add: getXZPlaneIntersection_eq rayDirection_def c)
  have on: "(cy + dy * t = 0) = (t = - cy / dy)" if "dy \<noteq> 0" for t
    using that by (auto simp: field_simps)
  show ?thesis
  proof (cases "dy = 0")
    case True
    then show ?thesis by (simp add: eq d)
  next
    case False
    then show ?thesis
      unfolding eq d by (auto simp: Ray_getPoint_def c on)
  qed
qed

section \<open>The translate drag\<close>

lemma vec3_add_assoc: "vec3_add (vec3_add a b) c = vec3_add a (vec3_add b c)"
  by (cases a, cases b, cases c) simp

lemma vec3_add_commute: "vec3_add a b = vec3_add b a"
  by (cases a, cases b) simp

lemma vec3_add_zero: "vec3_add a (0, 0, 0) = a"
  by (cases a) simp

lemma sumPositions_present:
  "\<forall>i \<in> set sel. objs i \<noteq> None \<Longrightarrow>
   sumPositions objs sel c = Inr (vec3_add c (sumVec (map (positionOf objs) sel)))"
proof (induction sel arbitrary: c)
  case Nil
  show ?case by (simp add: vec3_add_zero)
next
  case (Cons i ids)
  then obtain g where g: "objs i = Some g" by auto
  from Cons.prems have rest: "\<forall>j \<in> set ids. objs j \<noteq> None" by simp
  show ?case
    using Cons.IH [OF rest, of "vec3_add c (position g)"] g
    by (simp add: require_def positionOf_def vec3_add_assoc)
qed

lemma getCenter_selected:
  assumes "Set_has sel (go_id (gameObject this))" and "\<forall>i \<in> set sel. objs i \<noteq> None"
  shows "getCenter objs sel this = Inr (mean (map (positionOf objs) sel))"
proof -
  have "vec3_add vec3_create v = v" for v
    by (cases v) (simp add: vec3_create_def)
  then show ?thesis
    using assms by (simp add: getCenter_def sumPositions_present mean_def)
qed

lemma getCenter_unselected:
  "\<not> Set_has sel (go_id (gameObject this)) \<Longrightarrow>
   getCenter objs sel this = Inr (position (gameObject this))"
  by (simp add: getCenter_def)

lemma editSelected_present:
  "\<forall>i \<in> set sel. objs i \<noteq> None \<Longrightarrow>
   editSelected objs sel oldCenter newCenter ed =
     Inr (\<lambda>i. if i \<in> set sel
               then Some (vec3_add (vec3_subtract (positionOf objs i) oldCenter) newCenter)
               else ed i)"
proof (induction sel arbitrary: ed)
  case Nil
  show ?case by simp
next
  case (Cons i ids)
  then obtain g where g: "objs i = Some g" by auto
  from Cons.prems have rest: "\<forall>j \<in> set ids. objs j \<noteq> None" by simp
  show ?case
    using g by (auto simp: Cons.IH [OF rest] require_def positionOf_def)
qed

lemma onPointerDrag_unfold:
  assumes "intersectionToCenter this = Some toCenter"
    and "Selector_getXZPlaneIntersection cam hov = Some intersection"
    and "getCenter objs sel this = Inr oldCenter"
  shows "Selector_onPointerDrag shift cam objs hov sel this =
           buildEdit objs sel this oldCenter
             (snapCenter shift oldCenter (vec3_add intersection toCenter))"
  using assms by (simp add: Selector_onPointerDrag_def)

lemma Math_round_int: "Math_round x \<in> \<int>"
  by (simp add: Math_round_def)

lemma Math_round_near: "\<bar>Math_round x - x\<bar> \<le> 1 / 2"
  unfolding Math_round_def by linarith

text \<open>
  Objects moved to a new center plus their offsets from their mean have the new center
  as the mean of their positions.
\<close>

lemma sumVec_components:
  "sumVec ps = (sum_list (map vx ps), sum_list (map vy ps), sum_list (map vz ps))"
  by (induction ps) auto

lemma sum_list_shifted:
  "sum_list (map (\<lambda>p. n + (f p - c)) ps) = real (length ps) * n + sum_list (map f ps) - real (length ps) * (c::real)"
  by (induction ps) (simp_all add: algebra_simps)

lemma mean_components:
  "mean ps = (sum_list (map vx ps) / real (length ps), sum_list (map vy ps) / real (length ps),
              sum_list (map vz ps) / real (length ps))"
  by (simp add: mean_def sumVec_components)

lemma sum_list_centered:
  "ps \<noteq> [] \<Longrightarrow>
   sum_list (map (\<lambda>p. n + (f p - sum_list (map f ps) / real (length ps))) ps)
     / real (length ps) = n"
  by (simp add: sum_list_shifted)

lemma mean_moved:
  assumes "ps \<noteq> []"
  shows "mean (map (\<lambda>p. vec3_add n (vec3_subtract p (mean ps))) ps) = n"
proof -
  obtain n0 n1 n2 where n: "n = (n0, n1, n2)" by (cases n)
  have f: "(\<lambda>p. vec3_add n (vec3_subtract p (mean ps))) =
           (\<lambda>p. (n0 + (vx p - sum_list (map vx ps) / real (length ps)),
                 n1 + (vy p - sum_list (map vy ps) / real (length ps)),
                 n2 + (vz p - sum_list (map vz ps) / real (length ps))))"
    by (auto simp: fun_eq_iff n mean_components)
  show ?thesis
    unfolding f mean_components [of "map _ ps"]
    using assms by (simp add: o_def sum_list_centered n)
qed

text \<open>When the positions could be summed, every id of the list is the id of a game object.\<close>

lemma sumPositions_Inr_present:
  "sumPositions objs sel c = Inr v \<Longrightarrow> \<forall>i \<in> set sel. objs i \<noteq> None"
  by (induction sel arbitrary: c) (auto simp: require_def split: option.splits)

lemma getCenter_Inr_present:
  "getCenter objs sel this = Inr c \<Longrightarrow> Set_has sel (go_id (gameObject this)) \<Longrightarrow>
   \<forall>i \<in> set sel. objs i \<noteq> None"
  by (auto simp: getCenter_def split: sum.splits dest: sumPositions_Inr_present)

text \<open>
  C4: in a translate drag on a Selector whose ray meets the plane (the pointer-down having
  stored the offset to the center, and the old center being computed without an error),
  the edit that is applied moves the group to a new center: without the shift key the new
  center is the old center plus the componentwise rounding of the unsnapped new center
  (intersection plus stored offset) minus the old center, with the shift key it is the
  unsnapped new center.  When the dragged object is selected, the old center is the mean
  of the selected positions, every selected object and no other gets the new center plus
  its offset from the old center, and the mean of the new positions is the new center;
  otherwise the old center is the dragged object's position and that object alone gets
  the new center.  Without the shift key every object so moved is displaced by the
  rounded vector, whose components are integers at most one half away from the
  unrounded ones.
\<close>

theorem C4_drag_snaps_to_grid:
  assumes "intersectionToCenter this = Some toCenter"
    and "Selector_getXZPlaneIntersection cam hov = Some intersection"
    and "getCenter objs sel this = Inr oldCenter"
  shows "(let unsnapped = vec3_add intersection toCenter;
              newCenter = (if shift then unsnapped
                           else vec3_add oldCenter
                                  (vec3_round (vec3_subtract unsnapped oldCenter)))
          in Selector_onPointerDrag shift cam objs hov sel this =
               Inr (Some (if Set_has sel (go_id (gameObject this))
                          then (\<lambda>i. if i \<in> set sel
                                     then Some (vec3_add newCenter
                                                 (vec3_subtract (positionOf objs i) oldCenter))
                                     else None)
                          else [go_id (gameObject this) \<mapsto> newCenter]))
             \<and> (if Set_has sel (go_id (gameObject this))
                 then oldCenter = mean (map (positionOf objs) sel)
                      \<and> mean (map (\<lambda>i. vec3_add newCenter
                                          (vec3_subtract (positionOf objs i) oldCenter)) sel)
                          = newCenter
                 else oldCenter = position (gameObject this))
             \<and> (shift \<or>
                  (\<forall>i. vec3_subtract
                         (vec3_add newCenter (vec3_subtract (positionOf objs i) oldCenter))
                         (positionOf objs i)
                       = vec3_round (vec3_subtract unsnapped oldCenter))))
         \<and> vec3_round (a0, a1, a2) = (Math_round a0, Math_round a1, Math_round a2)
         \<and> Math_round x \<in> \<int> \<and> \<bar>Math_round x - x\<bar> \<le> 1 / 2"
proof -
  define unsnapped where "unsnapped = vec3_add intersection toCenter"
  define newCenter where "newCenter =
    (if shift then unsnapped
     else vec3_add oldCenter (vec3_round (vec3_subtract unsnapped oldCenter)))"
  have snap: "snapCenter shift oldCenter (vec3_add intersection toCenter) = newCenter"
    by (simp add: snapCenter_def newCenter_def unsnapped_def)
  have drag: "Selector_onPointerDrag shift cam objs hov sel this =
                buildEdit objs sel this oldCenter newCenter"
    using onPointerDrag_unfold [OF assms, of shift] by (simp only: snap)
  have swap: "vec3_add (vec3_subtract p c) n = vec3_add n (vec3_subtract p c)" for p c n
    by (rule vec3_add_commute)
  have moved: "vec3_subtract (vec3_add n (vec3_subtract p c)) p = vec3_subtract n c" for n p c
    by (cases n, cases p, cases c) simp
  have cancel: "vec3_subtract (vec3_add c d) c = d" for c d
    by (cases c, cases d) simp
  have edit: "Selector_onPointerDrag shift cam objs hov sel this =
               Inr (Some (if Set_has sel (go_id (gameObject this))
                          then (\<lambda>i. if i \<in> set sel
                                     then Some (vec3_add newCenter
                                                 (vec3_subtract (positionOf objs i) oldCenter))
                                     else None)
                          else [go_id (gameObject this) \<mapsto> newCenter]))"
  proof (cases "Set_has sel (go_id (gameObject this))")
    case True
    have all: "\<forall>i \<in> set sel. objs i \<noteq> None"
      using assms(3) True by (rule getCenter_Inr_present)
    show ?thesis
      using True
      by (simp add: drag buildEdit_def editSelected_present [OF all] swap cong: if_cong)
  next
    case False
    then show ?thesis by (simp add: drag buildEdit_def)
  qed
  have center: "if Set_has sel (go_id (gameObject this))
                 then oldCenter = mean (map (positionOf objs) sel)
                      \<and> mean (map (\<lambda>i. vec3_add newCenter
                                          (vec3_subtract (positionOf objs i) oldCenter)) sel)
                          = newCenter
                 else oldCenter = position (gameObject this)"
  proof (cases "Set_has sel (go_id (gameObject this))")
    case True
    have all: "\<forall>i \<in> set sel. objs i \<noteq> None"
      using assms(3) True by (rule getCenter_Inr_present)
    have old: "oldCenter = mean (map (positionOf objs) sel)"
      using assms(3) getCenter_selected [OF True all] by simp
    have ne: "map (positionOf objs) sel \<noteq> []"
      using True by (auto simp: Set_has_def)
    have "mean (map (\<lambda>p. vec3_add newCenter (vec3_subtract p (mean (map (positionOf objs) sel))))
            (map (positionOf objs) sel)) = newCenter"
      using ne by (rule mean_moved)
    then have "mean (map (\<lambda>i. vec3_add newCenter (vec3_subtract (positionOf objs i) oldCenter))
                 sel) = newCenter"
      by (simp add: old o_def)
    with True old show ?thesis by simp
  next
    case False
    then show ?thesis
      using assms(3) getCenter_unselected [OF False, of objs] by simp
  qed
  have delta: "shift \<or>
                  (\<forall>i. vec3_subtract
                         (vec3_add newCenter (vec3_subtract (positionOf objs i) oldCenter))
                         (positionOf objs i)
                       = vec3_round (vec3_subtract unsnapped oldCenter))"
    by (simp add: moved newCenter_def cancel)
  have round: "vec3_round (a0, a1, a2) = (Math_round a0, Math_round a1, Math_round a2)"
    by simp
  show ?thesis
    unfolding Let_def unsnapped_def [symmetric] newCenter_def [symmetric]
    using edit center delta round Math_round_int [of x] Math_round_near [of x]
    by blast
qed

theorem C4_drag_snaps_to_grid_witness:
  "Selector_onPointerDrag False (Some (0, 10, 0)) scene (hoverAt (27 / 10, 0, 4)) [''1'', ''2'']
       \<lparr>gameObject = cube, intersectionToCenter = Some (0, 0, 0)\<rparr>
     = Inr (Some [''1'' \<mapsto> (2, 0, 5), ''2'' \<mapsto> (4, 0, 3)])
   \<and> mean (map (positionOf scene) [''1'', ''2'']) = (3, 0, 2)
   \<and> mean [(2, 0, 5), (4, 0, 3)] = (3, 0, 4)
   \<and> Selector_onPointerDrag True (Some (0, 10, 0)) scene (hoverAt (27 / 10, 0, 4)) [''1'', ''2'']
       \<lparr>gameObject = cube, intersectionToCenter = Some (0, 0, 0)\<rparr>
     = Inr (Some [''1'' \<mapsto> (17 / 10, 0, 5), ''2'' \<mapsto> (37 / 10, 0, 3)])
   \<and> Selector_onPointerDrag False (Some (0, 10, 0)) scene (hoverAt (27 / 10, 0, 4)) [''2'']
       \<lparr>gameObject = cube, intersectionToCenter = Some (0, 0, 0)\<rparr>
     = Inr (Some [''1'' \<mapsto> (3, 0, 4)])"
proof -
  let ?cubeSelector = "\<lparr>gameObject = cube, intersectionToCenter = Some (0, 0, 0)\<rparr>"
  have i: "Selector_getXZPlaneIntersection (Some (0, 10, 0)) (hoverAt (27 / 10, 0, 4))
             = Some (27 / 10, 0, 4)"
    by (simp add: Selector_getXZPlaneIntersection_def hoverAt_on_plane)
  have t: "intersectionToCenter ?cubeSelector = Some (0, 0, 0)"
    by simp
  have p: "positionOf scene ''1'' = (2, 0, 3)" "positionOf scene ''2'' = (4, 0, 1)"
    by (simp_all add: positionOf_def scene_def cube_def ball_def)
  have m: "mean (map (positionOf scene) [''1'', ''2'']) = (3, 0, 2)"
    by (simp add: mean_def p)
  have m': "mean [(2, 0, 5), (4, 0, 3)] = (3, 0, 4)"
    by (simp add: mean_def)
  have s: "Set_has [''1'', ''2''] (go_id (gameObject ?cubeSelector))"
    by (simp add: Set_has_def cube_def)
  have u: "\<not> Set_has [''2''] (go_id (gameObject ?cubeSelector))"
    by (simp add: Set_has_def cube_def)
  have g: "getCenter scene [''1'', ''2''] ?cubeSelector = Inr (3, 0, 2)"
    using getCenter_selected [of "[''1'', ''2'']" ?cubeSelector scene] s m by (simp add: scene_def)
  have g1: "getCenter scene [''2''] ?cubeSelector = Inr (2, 0, 3)"
    using getCenter_unselected [OF u, of scene] by (simp add: cube_def)
  have r: "Math_round (- 3 / 10) = 0" "Math_round 0 = 0" "Math_round 2 = 2"
    "Math_round (7 / 10) = 1" "Math_round 1 = 1"
    by (simp_all add: Math_round_def)
  have a: "Selector_onPointerDrag False (Some (0, 10, 0)) scene (hoverAt (27 / 10, 0, 4))
             [''1'', ''2''] ?cubeSelector
           = Inr (Some (\<lambda>i. if i \<in> set [''1'', ''2'']
                then Some (vec3_add (3, 0, 4) (vec3_subtract (positionOf scene i) (3, 0, 2)))
                else None))"
    using C4_drag_snaps_to_grid [OF t i g, of False, THEN conjunct1] s r
    by (simp add: Let_def cong: if_cong)
  have b: "Selector_onPointerDrag True (Some (0, 10, 0)) scene (hoverAt (27 / 10, 0, 4))
             [''1'', ''2''] ?cubeSelector
           = Inr (Some (\<lambda>i. if i \<in> set [''1'', ''2'']
                then Some (vec3_add (27 / 10, 0, 4) (vec3_subtract (positionOf scene i) (3, 0, 2)))
                else None))"
    using C4_drag_snaps_to_grid [OF t i g, of True, THEN conjunct1] s
    by (simp add: Let_def cong: if_cong)
  have c: "Selector_onPointerDrag False (Some (0, 10, 0)) scene (hoverAt (27 / 10, 0, 4))
             [''2''] ?cubeSelector = Inr (Some [''1'' \<mapsto> (3, 0, 4)])"
    using C4_drag_snaps_to_grid [OF t i g1, of False, THEN conjunct1] u r
    by (simp add: Let_def cube_def cong: if_cong)
  have a': "(\<lambda>i. if i \<in> set [''1'', ''2'']
                then Some (vec3_add (3, 0, 4) (vec3_subtract (positionOf scene i) (3, 0, 2)))
                else None) = [''1'' \<mapsto> (2, 0, 5), ''2'' \<mapsto> (4, 0, 3)]"
    by (auto simp: p fun_eq_iff)
  have b': "(\<lambda>i. if i \<in> set [''1'', ''2'']
                then Some (vec3_add (27 / 10, 0, 4) (vec3_subtract (positionOf scene i) (3, 0, 2)))
                else None) = [''1'' \<mapsto> (17 / 10, 0, 5), ''2'' \<mapsto> (37 / 10, 0, 3)]"
    by (auto simp: p fun_eq_iff)
  show ?thesis
    using a b c m m' unfolding a' b' by simp
qed

text \<open>
  C5: in a translate drag on a Selector whose object is in the selection (every selected
  id being the id of a game object), the edit gives every selected object, and no other,
  the new center plus the object's offset from the old center, the old center being the
  arithmetic mean of the positions of the selected objects; when the dragged object is
  not in the selection, the edit gives that object alone the new center.
\<close>

theorem C5_drag_moves_rigidly:
  assumes "intersectionToCenter this = Some toCenter"
    and "Selector_getXZPlaneIntersection cam hov = Some intersection"
    and "Set_has sel (go_id (gameObject this)) \<longrightarrow> (\<forall>i \<in> set sel. objs i \<noteq> None)"
  shows "Selector_onPointerDrag shift cam objs hov sel this =
     (if Set_has sel (go_id (gameObject this)) then
        (let center = mean (map (positionOf objs) sel);
             newCenter = snapCenter shift center (vec3_add intersection toCenter)
         in Inr (Some (\<lambda>i. if i \<in> set sel
                           then Some (vec3_add newCenter (vec3_subtract (positionOf objs i) center))
                           else None)))
      else Inr (Some [go_id (gameObject this) \<mapsto>
                  snapCenter shift (position (gameObject this)) (vec3_add intersection toCenter)]))"
proof (cases "Set_has sel (go_id (gameObject this))")
  case True
  with assms(3) have all: "\<forall>i \<in> set sel. objs i \<noteq> None" by simp
  have swap: "vec3_add (vec3_subtract p c) n = vec3_add n (vec3_subtract p c)" for p c n
    by (rule vec3_add_commute)
  show ?thesis
    using True
    by (simp add: onPointerDrag_unfold [OF assms(1,2) getCenter_selected [OF True all]]
        buildEdit_def editSelected_present [OF all] Let_def swap cong: if_cong)
next
  case False
  show ?thesis
    using False
    by (simp add: onPointerDrag_unfold [OF assms(1,2) getCenter_unselected [OF False]]
        buildEdit_def)
qed

theorem C5_drag_moves_rigidly_witness:
  "Selector_onPointerDrag False (Some (0, 10, 0)) scene (hoverAt (5, 0, 5)) [''1'', ''2'']
       \<lparr>gameObject = cube, intersectionToCenter = Some (0, 0, 0)\<rparr>
     = Inr (Some [''1'' \<mapsto> (4, 0, 6), ''2'' \<mapsto> (6, 0, 4)])
   \<and> mean (map (positionOf scene) [''1'', ''2'']) = (3, 0, 2)"
proof -
  have i: "Selector_getXZPlaneIntersection (Some (0, 10, 0)) (hoverAt (5, 0, 5))
             = Some (5, 0, 5)"
    by (simp add: Selector_getXZPlaneIntersection_def hoverAt_on_plane)
  have t: "intersectionToCenter \<lparr>gameObject = cube, intersectionToCenter = Some (0, 0, 0)\<rparr>
             = Some (0, 0, 0)"
    by simp
  have e: "Set_has [''1'', ''2''] (go_id (gameObject
             \<lparr>gameObject = cube, intersectionToCenter = Some (0, 0, 0)\<rparr>)) \<longrightarrow>
           (\<forall>i \<in> set [''1'', ''2'']. scene i \<noteq> None)"
    by (simp add: scene_def)
  have m: "mean (map (positionOf scene) [''1'', ''2'']) = (3, 0, 2)"
    by (simp add: mean_def positionOf_def scene_def cube_def ball_def)
  have r: "Math_round 2 = 2" "Math_round 0 = 0" "Math_round 3 = 3"
    by (simp_all add: Math_round_def)
  have s: "Set_has [''1'', ''2''] (go_id (gameObject
             \<lparr>gameObject = cube, intersectionToCenter = Some (0, 0, 0)\<rparr>))"
    by (simp add: Set_has_def cube_def)
  have p: "positionOf scene ''1'' = (2, 0, 3)" "positionOf scene ''2'' = (4, 0, 1)"
    by (simp_all add: positionOf_def scene_def cube_def ball_def)
  have "Selector_onPointerDrag False (Some (0, 10, 0)) scene (hoverAt (5, 0, 5)) [''1'', ''2'']
       \<lparr>gameObject = cube, intersectionToCenter = Some (0, 0, 0)\<rparr>
     = Inr (Some (\<lambda>i. if i \<in> set [''1'', ''2'']
          then Some (vec3_add (snapCenter False (3, 0, 2) (vec3_add (5, 0, 5) (0, 0, 0)))
                  (vec3_subtract (positionOf scene i) (3, 0, 2)))
          else None))"
    using C5_drag_moves_rigidly [OF t i e, of False] s by (simp only: if_True m Let_def)
  also have "\<dots> = Inr (Some [''1'' \<mapsto> (4, 0, 6), ''2'' \<mapsto> (6, 0, 4)])"
    by (auto simp: snapCenter_def r p fun_eq_iff)
  finally show ?thesis
    using m by simp
qed

section \<open>What the callers of the plane intersection do on a miss\<close>

text \<open>
  C6, as stated, says that a caller that receives false changes no state.
  \<^verbatim>\<open>Selector.onPointerDown\<close> does: it sets \<^verbatim>\<open>_intersectionToCenter\<close> to undefined.
\<close>

theorem C6_counterexample:
  "Selector_getXZPlaneIntersection None (hoverAt (0, 0, 0)) = None
   \<and> intersectionToCenter dragged = Some (1, 0, 0)
   \<and> Selector_onPointerDown False None scene (hoverAt (0, 0, 0)) [''1''] dragged =
       ([''1''], Inr (dragged\<lparr>intersectionToCenter := None\<rparr>))
   \<and> snd (Selector_onPointerDown False None scene (hoverAt (0, 0, 0)) [''1''] dragged)
       \<noteq> Inr dragged"
  by (simp add: Selector_getXZPlaneIntersection_def Selector_onPointerDown_def Let_def
      dragged_def updateSelection_def Set_has_def cube_def)

text \<open>
  C6, amended: the intersection routine returns a point exactly when the ray from the
  camera position towards the hover's world position is not parallel to the plane
  \<open>y = 0\<close> and meets it at a strictly positive distance, and the point is the meeting
  point; otherwise, and for a Selector without an active camera, it returns false.  On
  false, \<^verbatim>\<open>Selector.onPointerDrag\<close> produces no edit;
  \<^verbatim>\<open>Selector.onPointerDown\<close> has updated the selection and sets the stored offset to
  undefined; \<^verbatim>\<open>CameraController.onPointerDown\<close> (button 0 and shift) has cleared the
  selection and changes nothing else; \<^verbatim>\<open>CameraController.onPointerDrag\<close> with a
  region changes nothing.
\<close>

theorem C6_intersection_and_callers:
  "(getXZPlaneIntersection cp hov = Some p) =
     (vy (rayDirection cp hov) \<noteq> 0
      \<and> (\<exists>t. 0 < t \<and> vy (Ray_getPoint cp (rayDirection cp hov) t) = 0
               \<and> p = Ray_getPoint cp (rayDirection cp hov) t))
   \<and> Selector_getXZPlaneIntersection None hov = None
   \<and> Selector_getXZPlaneIntersection (Some cp) hov = getXZPlaneIntersection cp hov
   \<and> (Selector_getXZPlaneIntersection cam hov = None \<longrightarrow>
        Selector_onPointerDrag shift cam objs hov sel this = Inr None
        \<and> Selector_onPointerDown control cam objs hov sel this =
            (updateSelection control sel (go_id (gameObject this)),
             Inr (this\<lparr>intersectionToCenter := None\<rparr>)))
   \<and> (getXZPlaneIntersection (transform_position (camera ed)) hov = None \<longrightarrow>
        CameraController_onPointerDown True True hov ed = ed\<lparr>selection := []\<rparr>
        \<and> (selectRegion (camera ed) \<noteq> None \<longrightarrow>
             CameraController_onPointerDrag h button0 button1 hov ed = ed))"
proof (intro conjI impI)
  show "(getXZPlaneIntersection cp hov = Some p) =
     (vy (rayDirection cp hov) \<noteq> 0
      \<and> (\<exists>t. 0 < t \<and> vy (Ray_getPoint cp (rayDirection cp hov) t) = 0
               \<and> p = Ray_getPoint cp (rayDirection cp hov) t))"
    by (rule getXZPlaneIntersection_Some_iff)
  show "Selector_getXZPlaneIntersection None hov = None"
    by (simp add: Selector_getXZPlaneIntersection_def)
  show "Selector_getXZPlaneIntersection (Some cp) hov = getXZPlaneIntersection cp hov"
    by (simp add: Selector_getXZPlaneIntersection_def)
next
  assume "Selector_getXZPlaneIntersection cam hov = None"
  then show "Selector_onPointerDrag shift cam objs hov sel this = Inr None"
    and "Selector_onPointerDown control cam objs hov sel this =
            (updateSelection control sel (go_id (gameObject this)),
             Inr (this\<lparr>intersectionToCenter := None\<rparr>))"
    by (simp_all add: Selector_onPointerDrag_def Selector_onPointerDown_def Let_def
        split: option.splits)
next
  assume none: "getXZPlaneIntersection (transform_position (camera ed)) hov = None"
  then show "CameraController_onPointerDown True True hov ed = ed\<lparr>selection := []\<rparr>"
    by (simp add: CameraController_onPointerDown_def Let_def Set_clear_def)
  assume "selectRegion (camera ed) \<noteq> None"
  with none show "CameraController_onPointerDrag h button0 button1 hov ed = ed"
    by (auto simp: CameraController_onPointerDrag_def Let_def)
qed

theorem C6_intersection_and_callers_witness:
  "getXZPlaneIntersection (0, 10, 0) (hoverAt (5, 0, 5)) = Some (5, 0, 5)
   \<and> vy (rayDirection (0, 10, 0) (hoverAt (5, 0, 5))) \<noteq> 0
   \<and> Selector_getXZPlaneIntersection None (hoverAt (5, 0, 5)) = None
   \<and> Selector_onPointerDrag False None scene (hoverAt (5, 0, 5)) [''1''] dragged = Inr None
   \<and> Selector_onPointerDown False None scene (hoverAt (5, 0, 5)) [''1''] dragged =
       ([''1''], Inr (dragged\<lparr>intersectionToCenter := None\<rparr>))
   \<and> getXZPlaneIntersection (0, 0, 10) (hoverAt (5, 0, 5)) = None
   \<and> CameraController_onPointerDown True True (hoverAt (5, 0, 5))
        (marqueeStart\<lparr>camera := initialCamera (0, 0, 10) (0, 0, 0, 1), selection := [''1'']\<rparr>)
       = marqueeStart\<lparr>camera := initialCamera (0, 0, 10) (0, 0, 0, 1), selection := []\<rparr>"
proof -
  have a: "getXZPlaneIntersection (0, 10, 0) (hoverAt (5, 0, 5)) = Some (5, 0, 5)"
    by (simp add: hoverAt_on_plane)
  have b: "Selector_getXZPlaneIntersection None (hoverAt (5, 0, 5)) = None"
    by (simp add: Selector_getXZPlaneIntersection_def)
  have c: "getXZPlaneIntersection (transform_position (camera
      (marqueeStart\<lparr>camera := initialCamera (0, 0, 10) (0, 0, 0, 1), selection := [''1'']\<rparr>)))
      (hoverAt (5, 0, 5)) = None"
    by (simp add: getXZPlaneIntersection_eq initialCamera_def hoverAt_def Let_def)
  show ?thesis
    using a b c
      C6_intersection_and_callers [of "(0, 10, 0)" "hoverAt (5, 0, 5)" "(5, 0, 5)" None
        False scene "[''1'']" dragged False
        "marqueeStart\<lparr>camera := initialCamera (0, 0, 10) (0, 0, 0, 1), selection := [''1'']\<rparr>"
        testHost True False]
    by (simp add: updateSelection_def Set_has_def cube_def dragged_def initialCamera_def)
qed

section \<open>The camera\<close>

lemma camera_fold_hover:
  "camera (fold (\<lambda>s e. e\<lparr>groupHovered := (groupHovered e)(s := True),
                    selectors := Set_add (selectors e) s\<rparr>) ts ed) = camera ed"
  by (induction ts arbitrary: ed) simp_all

lemma camera_hoverOverlapped: "camera (hoverOverlapped ts ed) = camera ed"
  by (simp add: hoverOverlapped_def camera_fold_hover)

lemma camera_fold_unhover:
  "camera (fold (\<lambda>s e. if \<not> Set_has (selectors e) s
                  then e\<lparr>groupHovered := (groupHovered e)(s := False)\<rparr> else e) xs ed) = camera ed"
  by (induction xs arbitrary: ed) simp_all

lemma camera_unhoverLast: "camera (unhoverLast ed) = camera ed"
  by (simp add: unhoverLast_def camera_fold_unhover)

lemma camera_swapSelectors: "camera (swapSelectors ed) = camera ed"
  by (simp add: swapSelectors_def)

lemma camera_fold_select:
  "camera (fold (\<lambda>s e. e\<lparr>groupHovered := (groupHovered e)(s := False),
                    selection := Set_add (selection e) (go_name (gameObjectOf h s))\<rparr>) xs ed) = camera ed"
  by (induction xs arbitrary: ed) simp_all

lemma camera_selectHovered: "camera (selectHovered h ed) = camera ed"
  by (simp add: selectHovered_def camera_fold_select)

lemma cameraInvariant_ignores:
  "cameraInvariant (c\<lparr>selectRegion := r\<rparr>) = cameraInvariant c"
  "cameraInvariant (c\<lparr>selectStartPosition := p\<rparr>) = cameraInvariant c"
  "cameraInvariant (c\<lparr>target := t\<rparr>) = cameraInvariant c"
  "cameraInvariant (c\<lparr>azimuth := a\<rparr>) = cameraInvariant c"
  by (simp_all add: cameraInvariant_def)

lemma cameraInvariant_onValue: "cameraInvariant (onValue h c) = cameraInvariant c"
  by (simp add: onValue_def cameraInvariant_def Let_def)

lemma cameraInvariant_addToDistance: "cameraInvariant c \<Longrightarrow> cameraInvariant (addToDistance a c)"
  by (simp add: addToDistance_def cameraInvariant_def)

lemma cameraInvariant_reset: "cameraInvariant (reset c)"
  by (simp add: reset_def cameraInvariant_def)

lemma cameraInvariant_onPointerDown:
  "cameraInvariant (camera ed) \<Longrightarrow>
   cameraInvariant (camera (CameraController_onPointerDown b0 sh hov ed))"
  by (simp add: CameraController_onPointerDown_def Let_def cameraInvariant_ignores
      split: option.splits)

lemma cameraInvariant_onPointerDrag:
  assumes "cameraInvariant (camera ed)"
  shows "cameraInvariant (camera (CameraController_onPointerDrag h b0 b1 hov ed))"
proof (cases "selectRegion (camera ed)")
  case (Some r)
  then show ?thesis
    using assms
    by (simp add: CameraController_onPointerDrag_def Let_def camera_swapSelectors
        camera_unhoverLast camera_hoverOverlapped cameraInvariant_ignores split: option.splits)
next
  case None
  have "cameraInvariant ((camera ed)\<lparr>azimuth := a, elevation := clamp e (- 90) 90\<rparr>)" for a e
    using assms by (simp add: cameraInvariant_def clamp_def)
  then show ?thesis
    using None assms
    by (simp add: CameraController_onPointerDrag_def Let_def cameraInvariant_ignores
        cameraInvariant_addToDistance)
qed

lemma cameraInvariant_onPointerUp:
  "cameraInvariant (camera ed) \<Longrightarrow> cameraInvariant (camera (CameraController_onPointerUp h ed))"
  by (simp add: CameraController_onPointerUp_def Let_def camera_selectHovered
      cameraInvariant_ignores split: option.splits)

lemma cameraInvariant_step:
  assumes "cameraInvariant (camera ed)"
  shows "cameraInvariant (camera (step h ev ed))"
proof -
  have "cameraInvariant (camera (handle h ev ed))"
  proof (cases ev)
    case (PointerDown b0 sh hov)
    then show ?thesis using assms by (simp add: cameraInvariant_onPointerDown)
  next
    case (PointerDrag b0 b1 hov)
    then show ?thesis using assms by (simp add: cameraInvariant_onPointerDrag)
  next
    case PointerUp
    then show ?thesis using assms by (simp add: cameraInvariant_onPointerUp)
  next
    case (Wheel delta)
    then show ?thesis
      using assms by (simp add: CameraController_onWheel_def cameraInvariant_addToDistance)
  next
    case Reset
    then show ?thesis by (simp add: cameraInvariant_reset)
  qed
  then show ?thesis by (simp add: step_def Let_def cameraInvariant_onValue)
qed

lemma cameraInvariant_run:
  "cameraInvariant (camera ed) \<Longrightarrow> cameraInvariant (camera (run h evs ed))"
  unfolding run_def by (induction evs arbitrary: ed) (simp_all add: cameraInvariant_step)

lemma cameraInvariant_initialCamera: "cameraInvariant (initialCamera p r)"
  by (simp add: initialCamera_def cameraInvariant_def)

lemma cameraInvariant_initial: "cameraInvariant (camera (initialEditor h))"
  by (simp add: initialEditor_def cameraInvariant_onValue cameraInvariant_initialCamera)

lemma orbitEquations_onValue: "orbitEquations h (onValue h c)"
  by (simp add: orbitEquations_def onValue_def Let_def)

lemma orbitEquations_run: "orbitEquations h (camera (run h evs (initialEditor h)))"
proof (induction evs rule: rev_induct)
  case Nil
  show ?case by (simp add: run_def initialEditor_def orbitEquations_onValue)
next
  case (snoc ev evs)
  show ?case by (simp add: run_def step_def Let_def orbitEquations_onValue)
qed

text \<open>
  C8: after the property callback has run on any values of the four properties, the
  camera's rotation is the quaternion of the Euler angles (elevation, azimuth, 0) and its
  position is the target plus that rotation applied to (0, 0, distance), the properties
  being unchanged; so it is after every sequence of events.  \<^verbatim>\<open>reset\<close> sets the target
  to (0, 0, 0), the azimuth to 0, the elevation to -45 and the distance to 10.
\<close>

theorem C8_orbit_equations:
  "transform_rotation (onValue h c) = quat_fromEuler h (elevation c) (azimuth c) 0
   \<and> transform_position (onValue h c) =
       vec3_add (target c) (vec3_transformQuat h (0, 0, distance c)
         (quat_fromEuler h (elevation c) (azimuth c) 0))
   \<and> target (onValue h c) = target c \<and> azimuth (onValue h c) = azimuth c
   \<and> elevation (onValue h c) = elevation c \<and> distance (onValue h c) = distance c
   \<and> orbitEquations h (camera (run h evs (initialEditor h)))
   \<and> target (reset c) = (0, 0, 0) \<and> azimuth (reset c) = 0
   \<and> elevation (reset c) = - 45 \<and> distance (reset c) = 10
   \<and> transform_position (camera (step h Reset ed)) =
       vec3_add (0, 0, 0) (vec3_transformQuat h (0, 0, 10) (quat_fromEuler h (- 45) 0 0))"
  by (simp add: orbitEquations_run onValue_def reset_def step_def Let_def)

text \<open>
  C9: after every sequence of events from the initial values (pointer-down, the drags with
  button 0, with button 1 or with neither, the marquee drag, pointer-up, wheel, reset) the
  elevation is within -90 and 90 and the distance is at least one half.
\<close>

theorem C9_elevation_and_distance_bounded:
  "- 90 \<le> elevation (camera (run h evs (initialEditor h)))
   \<and> elevation (camera (run h evs (initialEditor h))) \<le> 90
   \<and> 1 / 2 \<le> distance (camera (run h evs (initialEditor h)))"
  using cameraInvariant_run [OF cameraInvariant_initial, of h evs]
  by (simp add: cameraInvariant_def)

section \<open>The marquee\<close>

text \<open>What a pointer-up that ends a marquee drag adds to the selection: names.\<close>

lemma selection_fold_select:
  "set (selection (fold (\<lambda>s e. e\<lparr>groupHovered := (groupHovered e)(s := False),
                    selection := Set_add (selection e) (go_name (gameObjectOf h s))\<rparr>) xs ed)) =
     set (selection ed) \<union> (\<lambda>s. go_name (gameObjectOf h s)) ` set xs"
  by (induction xs arbitrary: ed) (auto simp: set_Set_add)

lemma selection_onPointerUp:
  "selectRegion (camera ed) = Some r \<Longrightarrow>
   set (selection (CameraController_onPointerUp h ed)) =
     set (selection ed) \<union> (\<lambda>s. go_name (gameObjectOf h s)) ` set (lastSelectors ed)"
  by (simp add: CameraController_onPointerUp_def Let_def selectHovered_def
      selection_fold_select)

text \<open>
  C1: every object that is group-hovered when a pointer-up ends a marquee drag is added
  to the selection.  The selection holds ids (the Selector's handlers ask it for
  \<^verbatim>\<open>gameObject.id\<close> and look its elements up as ids), and the pointer-up adds
  \<^verbatim>\<open>gameObject.name\<close>: here the marquee drag hovers the Selector of the cube and the
  pointer-up leaves the selection holding the cube's name, not its id.
\<close>

theorem C1_marquee_adds_name_not_id:
  "groupHovered (CameraController_onPointerDrag testHost True False (hoverAt (5, 0, 5))
      (CameraController_onPointerDown True True (hoverAt (0, 0, 0)) marqueeStart)) 0
   \<and> lastSelectors (CameraController_onPointerDrag testHost True False (hoverAt (5, 0, 5))
      (CameraController_onPointerDown True True (hoverAt (0, 0, 0)) marqueeStart)) = [0]
   \<and> go_id (gameObjectOf testHost 0) = ''1''
   \<and> selection (CameraController_onPointerUp testHost
        (CameraController_onPointerDrag testHost True False (hoverAt (5, 0, 5))
          (CameraController_onPointerDown True True (hoverAt (0, 0, 0)) marqueeStart)))
       = [''cube'']
   \<and> \<not> Set_has (selection (CameraController_onPointerUp testHost
        (CameraController_onPointerDrag testHost True False (hoverAt (5, 0, 5))
          (CameraController_onPointerDown True True (hoverAt (0, 0, 0)) marqueeStart))))
        (go_id (gameObjectOf testHost 0))"
proof -
  have down: "CameraController_onPointerDown True True (hoverAt (0, 0, 0)) marqueeStart =
      marqueeStart\<lparr>camera := (camera marqueeStart)
        \<lparr>selectStartPosition := (0, 0, 0),
         selectRegion := Some \<lparr>region_position = (0, 0, 0),
           region_localScale = (SMALL_SCALE, 1, SMALL_SCALE)\<rparr>\<rparr>\<rparr>"
    by (simp add: CameraController_onPointerDown_def marqueeStart_def initialCamera_def
        hoverAt_on_plane Set_clear_def)
  have drag: "CameraController_onPointerDrag testHost True False (hoverAt (5, 0, 5))
      (CameraController_onPointerDown True True (hoverAt (0, 0, 0)) marqueeStart) =
      marqueeStart\<lparr>camera := (camera marqueeStart)
        \<lparr>selectStartPosition := (0, 0, 0),
         selectRegion := Some \<lparr>region_position = (5 / 2, 0, 5 / 2),
           region_localScale = (5, 1, 5)\<rparr>\<rparr>,
        groupHovered := (\<lambda>s. s = 0), lastSelectors := [0]\<rparr>"
    unfolding down
    by (simp add: CameraController_onPointerDrag_def marqueeStart_def initialCamera_def
        hoverAt_on_plane Let_def testHost_def hoverOverlapped_def unhoverLast_def
        swapSelectors_def Set_add_def Set_has_def Set_clear_def SMALL_SCALE_def fun_eq_iff)
  show ?thesis
    unfolding drag
    by (simp add: CameraController_onPointerUp_def marqueeStart_def initialCamera_def
        testHost_def selectHovered_def Set_add_def Set_has_def Set_clear_def cube_def)
qed

section \<open>The outline\<close>

lemma fold_traverse:
  assumes "\<And>c ms. c \<in> set cs \<Longrightarrow>
             traverse cb c ms = (\<lambda>n. if n \<in> meshNodes c then u (ms n) else ms n)"
    and "\<And>m. u (u m) = u m"
  shows "fold (traverse cb) cs ms =
           (\<lambda>n. if n \<in> (\<Union>c \<in> set cs. meshNodes c) then u (ms n) else ms n)"
  using assms(1)
proof (induction cs arbitrary: ms)
  case Nil
  show ?case by simp
next
  case (Cons c cs)
  have "fold (traverse cb) cs (traverse cb c ms) =
          (\<lambda>n. if n \<in> (\<Union>c \<in> set cs. meshNodes c) then u (traverse cb c ms n)
                else traverse cb c ms n)"
    by (rule Cons.IH) (simp add: Cons.prems)
  then show ?case
    by (auto simp: Cons.prems assms(2) fun_eq_iff)
qed

lemma traverse_meshes:
  assumes cb: "\<And>nd ms. cb nd ms = (if \<not> isMesh nd then ms else ms(node nd := u (ms (node nd))))"
    and idem: "\<And>m. u (u m) = u m"
  shows "traverse cb ob ms = (\<lambda>n. if n \<in> meshNodes ob then u (ms n) else ms n)"
proof (induction ob arbitrary: ms)
  case (Object3D n m cs)
  define s0 where "s0 = cb (Object3D n m cs) ms"
  have s0: "s0 = (if \<not> m then ms else ms(n := u (ms n)))"
    unfolding s0_def using cb [of "Object3D n m cs" ms] by simp
  have "traverse cb (Object3D n m cs) ms = fold (traverse cb) cs s0"
    by (simp add: s0_def)
  also have "\<dots> = (\<lambda>k. if k \<in> (\<Union>c \<in> set cs. meshNodes c) then u (s0 k) else s0 k)"
    by (rule fold_traverse) (simp_all add: Object3D.IH idem)
  also have "\<dots> = (\<lambda>k. if k \<in> meshNodes (Object3D n m cs) then u (ms k) else ms k)"
    unfolding s0 by (auto simp: idem fun_eq_iff)
  finally show ?case .
qed

lemma traverse_enableNode:
  "traverse (enableNode ol sel) ob ms =
     (\<lambda>n. if n \<in> meshNodes ob
           then (ms n)\<lparr>layers := insert ol (layers (ms n)),
                  forcedOpacity := Some (if sel then 8 / 10 else 4 / 10)\<rparr>
           else ms n)"
  by (rule traverse_meshes) (simp_all add: enableNode_def)

lemma traverse_disableNode:
  "traverse (disableNode ol) ob ms =
     (\<lambda>n. if n \<in> meshNodes ob
           then (ms n)\<lparr>forcedOpacity := None, layers := layers (ms n) - {ol}\<rparr>
           else ms n)"
  by (rule traverse_meshes) (simp_all add: disableNode_def)

lemma outlineInvariant_clearOutline:
  assumes "outlineInvariant w"
  shows "outlineInvariant (clearOutline ol this w)"
proof (cases "fmlookup (outlineObject w) this")
  case None
  then show ?thesis using assms by (simp add: clearOutline_def)
next
  case (Some ob)
  then have mem: "this |\<in>| fmdom (outlineObject w)" by (simp add: fmdomI)
  then have pos: "0 < fcard (fmdom (outlineObject w))"
    by (metis fempty_iff gr0I fcard_0_eq)
  have card: "int (fcard (fmdom (outlineObject w) |-| {|this|})) =
                int (fcard (fmdom (outlineObject w))) - 1"
    using mem pos by (simp add: fcard_fminus_fsingleton)
  show ?thesis
    using assms Some pos card
    by (auto simp: clearOutline_def outlineInvariant_def Let_def callRemover_def)
qed

lemma lookup_clearOutline: "fmlookup (outlineObject (clearOutline ol this w)) this = None"
  by (simp add: clearOutline_def Let_def callRemover_def split: option.splits remover.splits)

lemma outlineInvariant_setOutline:
  assumes "outlineInvariant w"
  shows "outlineInvariant (setOutline ol this ob sel w)"
proof -
  define w1 where "w1 = clearOutline ol this w"
  have inv1: "outlineInvariant w1"
    unfolding w1_def using assms by (rule outlineInvariant_clearOutline)
  have "this |\<notin>| fmdom (outlineObject w1)"
    unfolding w1_def by (simp add: lookup_clearOutline fmdom_notI)
  then have card: "fcard (finsert this (fmdom (outlineObject w1))) =
                     Suc (fcard (fmdom (outlineObject w1)))"
    by (simp add: fcard_finsert_disjoint)
  show ?thesis
    using inv1 card
    by (auto simp: setOutline_def w1_def [symmetric] outlineInvariant_def Let_def)
qed

lemma outlineInvariant_initial: "outlineInvariant (initialOutlines ms)"
  by (simp add: outlineInvariant_def initialOutlines_def)

lemma outlineInvariant_applyOp: "outlineInvariant w \<Longrightarrow> outlineInvariant (applyOp ol op w)"
  by (cases op) (simp_all add: outlineInvariant_setOutline outlineInvariant_clearOutline)

lemma outlineInvariant_applyOps: "outlineInvariant w \<Longrightarrow> outlineInvariant (applyOps ol ops w)"
  unfolding applyOps_def by (induction ops arbitrary: w) (simp_all add: outlineInvariant_applyOp)

lemma meshes_setOutline:
  "meshes (setOutline ol this ob sel w) =
     traverse (enableNode ol sel) ob (meshes (clearOutline ol this w))"
  by (simp add: setOutline_def Let_def)

lemma lookup_setOutline: "fmlookup (outlineObject (setOutline ol this ob sel w)) this = Some ob"
  by (simp add: setOutline_def Let_def)

lemma hook_setOutline:
  assumes "outlineInvariant w"
  shows "onAfterRender (setOutline ol this ob sel w)"
proof -
  have inv: "outlineInvariant (setOutline ol this ob sel w)"
    using assms by (rule outlineInvariant_setOutline)
  have "this |\<in>| fmdom (outlineObject (setOutline ol this ob sel w))"
    by (simp add: lookup_setOutline fmdomI)
  then have "0 < fcard (fmdom (outlineObject (setOutline ol this ob sel w)))"
    by (metis fempty_iff gr0I fcard_0_eq)
  with inv show ?thesis by (simp add: outlineInvariant_def)
qed

lemma renderTarget_setOutline:
  assumes "outlineInvariant w"
  shows "renderTarget (setOutline ol this ob sel w)"
proof -
  have inv: "outlineInvariant (setOutline ol this ob sel w)"
    using assms by (rule outlineInvariant_setOutline)
  have "onAfterRender (setOutline ol this ob sel w)"
    using assms by (rule hook_setOutline)
  with inv show ?thesis by (simp add: outlineInvariant_def)
qed

lemma meshes_clearOutline:
  "fmlookup (outlineObject w) this = Some ob \<Longrightarrow>
   meshes (clearOutline ol this w) = traverse (disableNode ol) ob (meshes w)"
  by (simp add: clearOutline_def Let_def callRemover_def split: remover.splits)

text \<open>
  C10: after every sequence of set and clear operations of any Selectors, the outline
  counter is the number of Selectors that have an outline object, and the render engine's
  callback is set exactly when the counter is positive.
\<close>

theorem C10_outline_counter:
  "outlineCount (applyOps ol ops (initialOutlines ms)) =
     int (fcard (fmdom (outlineObject (applyOps ol ops (initialOutlines ms)))))
   \<and> onAfterRender (applyOps ol ops (initialOutlines ms)) =
       (0 < outlineCount (applyOps ol ops (initialOutlines ms)))"
  using outlineInvariant_applyOps [OF outlineInvariant_initial, of ol ops ms]
  by (simp add: outlineInvariant_def)

text \<open>
  C7, as stated, says that a Selector has its outline exactly when it is hovered,
  group-hovered or selected.  A selected Selector whose \<^verbatim>\<open>hoverable\<close> has no object has
  none: the callback clears the outline.
\<close>

theorem C7_counterexample:
  "fmlookup (outlineObject (Selector_onValue 1 0 0 None False True
      (setOutline 1 0 crate True (initialOutlines plainMeshes)))) 0 = None
   \<and> 1 \<notin> layers (meshes (Selector_onValue 1 0 0 None False True
      (setOutline 1 0 crate True (initialOutlines plainMeshes))) 2)
   \<and> drawMesh (meshes (Selector_onValue 1 0 0 None False True
      (setOutline 1 0 crate True (initialOutlines plainMeshes))) 2) 1 = (1, 1)
   \<and> outlineCount (Selector_onValue 1 0 0 None False True
      (setOutline 1 0 crate True (initialOutlines plainMeshes))) = 0"
proof -
  have l: "fmlookup (outlineObject (setOutline 1 0 crate True (initialOutlines plainMeshes))) 0
             = Some crate"
    by (rule lookup_setOutline)
  have n: "2 \<in> meshNodes crate"
    by (simp add: crate_def)
  have c: "outlineCount (setOutline 1 0 crate True (initialOutlines plainMeshes)) = 1"
    by (simp add: setOutline_def clearOutline_def initialOutlines_def Let_def)
  have k: "outlineCount (clearOutline 1 0 (setOutline 1 0 crate True (initialOutlines plainMeshes)))
             = 0"
    using l c by (simp add: clearOutline_def Let_def callRemover_def split: remover.splits)
  show ?thesis
    using n k
    by (simp add: Selector_onValue_def lookup_clearOutline meshes_clearOutline [OF l]
        traverse_disableNode drawMesh_def del: One_nat_def)
qed

text \<open>
  C7, amended: when the Selector's \<^verbatim>\<open>hoverable\<close> has an object and the Selector is
  hovered, group-hovered or selected, then after the callback the object is the
  Selector's outline object, the auxiliary render target exists and the render engine's
  callback that renders the outline layer into it is set, and every mesh of the object is
  on the outline layer and is drawn with opacity 0.8 when selected and 0.4 otherwise, its
  material's opacity being restored afterwards.  When none of the three holds, or there
  is no object, the Selector has no outline object afterwards, and every mesh of its
  previous outline object is off the outline layer and drawn with its own opacity.
\<close>

theorem C7_outline_when_highlighted:
  "(hovered \<noteq> 0 \<or> groupHov \<or> selected \<longrightarrow>
      fmlookup (outlineObject (Selector_onValue ol this hovered (Some ob) groupHov selected
         (applyOps ol ops (initialOutlines ms)))) this = Some ob
      \<and> onAfterRender (Selector_onValue ol this hovered (Some ob) groupHov selected
         (applyOps ol ops (initialOutlines ms)))
      \<and> renderTarget (Selector_onValue ol this hovered (Some ob) groupHov selected
         (applyOps ol ops (initialOutlines ms)))
      \<and> (\<forall>n \<in> meshNodes ob.
           ol \<in> layers (meshes (Selector_onValue ol this hovered (Some ob) groupHov selected
             (applyOps ol ops (initialOutlines ms))) n)
           \<and> drawMesh (meshes (Selector_onValue ol this hovered (Some ob) groupHov selected
               (applyOps ol ops (initialOutlines ms))) n) opacity
             = (if selected then 8 / 10 else 4 / 10, opacity)))
   \<and> (\<not> (hovered \<noteq> 0 \<or> groupHov \<or> selected) \<or> object = None \<longrightarrow>
      fmlookup (outlineObject (Selector_onValue ol this hovered object groupHov selected w)) this
        = None
      \<and> (\<forall>ob0. fmlookup (outlineObject w) this = Some ob0 \<longrightarrow>
           (\<forall>n \<in> meshNodes ob0.
              ol \<notin> layers (meshes (Selector_onValue ol this hovered object groupHov selected w) n)
              \<and> drawMesh (meshes (Selector_onValue ol this hovered object groupHov selected w) n)
                  opacity = (opacity, opacity))))"
proof (intro conjI impI)
  assume h: "hovered \<noteq> 0 \<or> groupHov \<or> selected"
  define w0 where "w0 = applyOps ol ops (initialOutlines ms)"
  have inv: "outlineInvariant w0"
    unfolding w0_def by (rule outlineInvariant_applyOps [OF outlineInvariant_initial])
  have eq: "Selector_onValue ol this hovered (Some ob) groupHov selected w0 =
              setOutline ol this ob selected w0"
    using h by (auto simp: Selector_onValue_def)
  show "fmlookup (outlineObject (Selector_onValue ol this hovered (Some ob) groupHov selected
         (applyOps ol ops (initialOutlines ms)))) this = Some ob"
    unfolding w0_def [symmetric] eq by (rule lookup_setOutline)
  show "onAfterRender (Selector_onValue ol this hovered (Some ob) groupHov selected
         (applyOps ol ops (initialOutlines ms)))"
    unfolding w0_def [symmetric] eq using inv by (rule hook_setOutline)
  show "renderTarget (Selector_onValue ol this hovered (Some ob) groupHov selected
         (applyOps ol ops (initialOutlines ms)))"
    unfolding w0_def [symmetric] eq using inv by (rule renderTarget_setOutline)
  show "\<forall>n \<in> meshNodes ob.
           ol \<in> layers (meshes (Selector_onValue ol this hovered (Some ob) groupHov selected
             (applyOps ol ops (initialOutlines ms))) n)
           \<and> drawMesh (meshes (Selector_onValue ol this hovered (Some ob) groupHov selected
               (applyOps ol ops (initialOutlines ms))) n) opacity
             = (if selected then 8 / 10 else 4 / 10, opacity)"
    unfolding w0_def [symmetric] eq
    by (simp add: meshes_setOutline traverse_enableNode drawMesh_def)
next
  assume h: "\<not> (hovered \<noteq> 0 \<or> groupHov \<or> selected) \<or> object = None"
  have eq: "Selector_onValue ol this hovered object groupHov selected w = clearOutline ol this w"
    using h by (auto simp: Selector_onValue_def split: option.splits)
  show "fmlookup (outlineObject (Selector_onValue ol this hovered object groupHov selected w)) this
        = None"
    unfolding eq by (rule lookup_clearOutline)
  show "\<forall>ob0. fmlookup (outlineObject w) this = Some ob0 \<longrightarrow>
           (\<forall>n \<in> meshNodes ob0.
              ol \<notin> layers (meshes (Selector_onValue ol this hovered object groupHov selected w) n)
              \<and> drawMesh (meshes (Selector_onValue ol this hovered object groupHov selected w) n)
                  opacity = (opacity, opacity))"
    unfolding eq by (simp add: meshes_clearOutline traverse_disableNode drawMesh_def)
qed

theorem C7_outline_when_highlighted_witness:
  "onAfterRender (Selector_onValue 1 0 0 (Some crate) False True
      (applyOps 1 [] (initialOutlines plainMeshes)))
   \<and> renderTarget (Selector_onValue 1 0 0 (Some crate) False True
      (applyOps 1 [] (initialOutlines plainMeshes)))
   \<and> 1 \<in> layers (meshes (Selector_onValue 1 0 0 (Some crate) False True
      (applyOps 1 [] (initialOutlines plainMeshes))) 2)
   \<and> drawMesh (meshes (Selector_onValue 1 0 0 (Some crate) False True
      (applyOps 1 [] (initialOutlines plainMeshes))) 2) 1 = (8 / 10, 1)
   \<and> 1 \<notin> layers (meshes (Selector_onValue 1 0 0 (Some crate) False False
      (setOutline 1 0 crate True (initialOutlines plainMeshes))) 2)
   \<and> drawMesh (meshes (Selector_onValue 1 0 0 (Some crate) False False
      (setOutline 1 0 crate True (initialOutlines plainMeshes))) 2) 1 = (1, 1)"
proof -
  have n: "2 \<in> meshNodes crate"
    by (simp add: crate_def)
  have l: "fmlookup (outlineObject (setOutline 1 0 crate True (initialOutlines plainMeshes))) 0
             = Some crate"
    by (rule lookup_setOutline)
  have h1: "(0::nat) \<noteq> 0 \<or> False \<or> True"
    by simp
  have h2: "\<not> ((0::nat) \<noteq> 0 \<or> False \<or> False) \<or> Some crate = None"
    by simp
  note on = C7_outline_when_highlighted [of 0 False True 1 0 crate "[]" plainMeshes 1
      "Some crate" "initialOutlines plainMeshes", THEN conjunct1, THEN mp, OF h1]
  note off = C7_outline_when_highlighted [of 0 False False 1 0 crate "[]" plainMeshes 1
      "Some crate" "setOutline 1 0 crate True (initialOutlines plainMeshes)",
      THEN conjunct2, THEN mp, OF h2]
  note on2 = on [THEN conjunct2, THEN conjunct2, THEN conjunct2, THEN bspec, OF n]
  note off2 = off [THEN conjunct2, THEN spec, THEN mp, OF l, THEN bspec, OF n]
  show ?thesis
    using on [THEN conjunct2, THEN conjunct1] on [THEN conjunct2, THEN conjunct2, THEN conjunct1]
      on2 off2
    by simp
qed

end
